theory Spec2Isabelle
  imports Main
begin

text \<open>
  The release scripts of the date-time picker, embedded function by function. The sources
  are \<^verbatim>\<open>src/scripts/version-helper.js\<close> (the Branch/Version Resolver), the second
  script held in \<^verbatim>\<open>src/scripts/test-versioning.js\<close> (the Safe Version Bumper, which
  calls itself safe-version-bump.js, from line 116 on) and the second script held in
  \<^verbatim>\<open>src/scripts/test-workflow.js\<close> (the Changelog Generator, which calls itself
  changelog-generator.js, from line 68 on).
\<close>

section \<open>JavaScript strings\<close>

text \<open>
  The scripts work on strings: version numbers, branch names, the output of the
  version-control commands and the changelog document. A string is modelled as a list of
  code units below 256 (ISO 8859-1); the patterns the scripts search for are all ASCII.
  The functions below are the String and Array methods the scripts call, each with the name
  of the method and a suffix.
\<close>

definition toLower_char :: "char \<Rightarrow> char" where
  "toLower_char c =
     (let n = (of_char c :: nat)
      in if (65 \<le> n \<and> n \<le> 90) \<or> (192 \<le> n \<and> n \<le> 222 \<and> n \<noteq> 215)
         then char_of (n + 32) else c)"

definition toLowerCase_js :: "string \<Rightarrow> string" where
  "toLowerCase_js s = map toLower_char s"

definition startsWith_js :: "string \<Rightarrow> string \<Rightarrow> bool" where
  "startsWith_js s p = (take (length p) s = p)"

fun includes_js :: "string \<Rightarrow> string \<Rightarrow> bool" where
  "includes_js [] p = (p = [])"
| "includes_js (c # cs) p = (startsWith_js (c # cs) p \<or> includes_js cs p)"

text \<open>White space as \<open>trim\<close> and the numeric conversions see it: tab, line feed,
  vertical tab, form feed, carriage return, space and the no-break space.\<close>

definition isWhiteSpace :: "char \<Rightarrow> bool" where
  "isWhiteSpace c = ((of_char c :: nat) \<in> {9, 10, 11, 12, 13, 32, 160})"

definition trimStart_js :: "string \<Rightarrow> string" where
  "trimStart_js s = dropWhile isWhiteSpace s"

definition trim_js :: "string \<Rightarrow> string" where
  "trim_js s = rev (dropWhile isWhiteSpace (rev (dropWhile isWhiteSpace s)))"

text \<open>\<open>s.split(c)\<close> for a separator of one character: never the empty array.\<close>

fun split_js :: "char \<Rightarrow> string \<Rightarrow> string list" where
  "split_js sep [] = [[]]"
| "split_js sep (x # xs) =
     (if x = sep then [] # split_js sep xs
      else (case split_js sep xs of
              [] \<Rightarrow> [[x]]
            | w # ws \<Rightarrow> (x # w) # ws))"

fun join_js :: "string \<Rightarrow> string list \<Rightarrow> string" where
  "join_js sep [] = []"
| "join_js sep [x] = x"
| "join_js sep (x # y # ys) = x @ sep @ join_js sep (y # ys)"

text \<open>\<open>xs[i]\<close>: \<open>None\<close> is JavaScript's \<open>undefined\<close>, the value of a read past the end.\<close>

fun index_js :: "'a list \<Rightarrow> nat \<Rightarrow> 'a option" where
  "index_js [] i = None"
| "index_js (x # xs) 0 = Some x"
| "index_js (x # xs) (Suc i) = index_js xs i"

section \<open>JavaScript numbers\<close>

text \<open>
  The version components are JavaScript numbers. An integer-valued number is modelled by
  an integer and \<open>NaN\<close> by a constructor of its own. JavaScript numbers are
  double-precision floats: the model is exact as long as every number stays a safe integer
  (magnitude below \<open>2^53\<close>), and the theorems that render or increment a parsed
  component say so in their hypotheses.
\<close>

datatype jsnum = Num int | NaN

definition isSafeInteger :: "int \<Rightarrow> bool" where
  "isSafeInteger n = (\<bar>n\<bar> < 2 ^ 53)"

definition isDigit :: "char \<Rightarrow> bool" where
  "isDigit c = (48 \<le> (of_char c :: nat) \<and> (of_char c :: nat) \<le> 57)"

text \<open>The value of a digit in a radix up to 36, as \<open>parseInt\<close> reads it.\<close>

definition digitValue :: "char \<Rightarrow> nat option" where
  "digitValue c =
     (let n = (of_char c :: nat)
      in if 48 \<le> n \<and> n \<le> 57 then Some (n - 48)
         else if 97 \<le> n \<and> n \<le> 122 then Some (n - 87)
         else if 65 \<le> n \<and> n \<le> 90 then Some (n - 55)
         else None)"

definition isRadixDigit :: "nat \<Rightarrow> char \<Rightarrow> bool" where
  "isRadixDigit R c = (case digitValue c of None \<Rightarrow> False | Some d \<Rightarrow> d < R)"

fun digitsToNat :: "nat \<Rightarrow> nat \<Rightarrow> string \<Rightarrow> nat" where
  "digitsToNat R acc [] = acc"
| "digitsToNat R acc (c # cs) =
     digitsToNat R (acc * R + (case digitValue c of None \<Rightarrow> 0 | Some d \<Rightarrow> d)) cs"

text \<open>
  \<open>parseInt(string)\<close> with no radix: leading white space is skipped, a sign is read,
  a prefix \<open>0x\<close> or \<open>0X\<close> switches to radix 16, and the longest run of digits is
  the value; no digit at all gives \<open>NaN\<close>. What follows the digits is ignored.
\<close>

definition parseInt_js :: "string \<Rightarrow> jsnum" where
  "parseInt_js s =
     (let S = trimStart_js s;
          sign = (case S of [] \<Rightarrow> (1::int) | c # r \<Rightarrow> if c = CHR ''-'' then - 1 else 1);
          S1 = (case S of [] \<Rightarrow> S | c # r \<Rightarrow> if c = CHR ''+'' \<or> c = CHR ''-'' then r else S);
          hex = (startsWith_js S1 ''0x'' \<or> startsWith_js S1 ''0X'');
          R = (if hex then 16 else 10);
          S2 = (if hex then drop 2 S1 else S1);
          Z = takeWhile (isRadixDigit R) S2
      in if Z = [] then NaN else Num (sign * int (digitsToNat R 0 Z)))"

text \<open>\<open>parseInt(x)\<close> for an array element \<open>x\<close> that may be \<open>undefined\<close>:
  the argument is converted to a string first.\<close>

definition parseInt_arg :: "string option \<Rightarrow> jsnum" where
  "parseInt_arg x = parseInt_js (case x of None \<Rightarrow> ''undefined'' | Some s \<Rightarrow> s)"

text \<open>\<open>n || 0\<close> for a number \<open>n\<close>: \<open>NaN\<close> and zero are falsy.\<close>

definition orZero :: "jsnum \<Rightarrow> int" where
  "orZero x = (case x of NaN \<Rightarrow> 0 | Num n \<Rightarrow> n)"

text \<open>
  \<open>Number(string)\<close>: the whole string, white space trimmed, must be a numeral; the
  empty string is 0 and a string that is no numeral is \<open>NaN\<close>. Besides the signed
  decimal integers, the numerals are \<open>Infinity\<close>, the decimal literals with a fraction or
  an exponent, and the unsigned literals with a prefix \<open>0x\<close>, \<open>0o\<close> or \<open>0b\<close>. This
  development recognises those but does not compute their value: for them the result is
  \<open>None\<close>, and a function that meets one returns \<open>None\<close> as well. \<open>None\<close> is not a
  failure of the program.
\<close>

definition isExponentPart :: "string \<Rightarrow> bool" where
  "isExponentPart r =
     (case r of
        [] \<Rightarrow> False
      | e # r1 \<Rightarrow>
          (e = CHR ''e'' \<or> e = CHR ''E'')
          \<and> (let r2 = (case r1 of
                         [] \<Rightarrow> r1
                       | c # r' \<Rightarrow> if c = CHR ''+'' \<or> c = CHR ''-'' then r' else r1)
             in r2 \<noteq> [] \<and> list_all isDigit r2))"

definition isUnsignedDecimalLiteral :: "string \<Rightarrow> bool" where
  "isUnsignedDecimalLiteral u =
     (u = ''Infinity''
      \<or> (let intPart = takeWhile isDigit u;
              r1 = dropWhile isDigit u
          in case r1 of
               [] \<Rightarrow> intPart \<noteq> []
             | c # r \<Rightarrow>
                 if c = CHR ''.'' then
                   (let fraction = takeWhile isDigit r;
                        r2 = dropWhile isDigit r
                    in (intPart \<noteq> [] \<or> fraction \<noteq> []) \<and> (r2 = [] \<or> isExponentPart r2))
                 else intPart \<noteq> [] \<and> isExponentPart r1))"

definition isNonDecimalLiteral :: "string \<Rightarrow> bool" where
  "isNonDecimalLiteral t =
     (case t of
        z # p # ds \<Rightarrow>
          z = CHR ''0'' \<and> ds \<noteq> []
          \<and> (((p = CHR ''x'' \<or> p = CHR ''X'') \<and> list_all (isRadixDigit 16) ds)
             \<or> ((p = CHR ''o'' \<or> p = CHR ''O'') \<and> list_all (isRadixDigit 8) ds)
             \<or> ((p = CHR ''b'' \<or> p = CHR ''B'') \<and> list_all (isRadixDigit 2) ds))
      | _ \<Rightarrow> False)"

definition Number_js :: "string \<Rightarrow> jsnum option" where
  "Number_js s =
     (let t = trim_js s;
          sign = (case t of [] \<Rightarrow> (1::int) | c # r \<Rightarrow> if c = CHR ''-'' then - 1 else 1);
          body = (case t of [] \<Rightarrow> t | c # r \<Rightarrow> if c = CHR ''+'' \<or> c = CHR ''-'' then r else t)
      in if t = [] then Some (Num 0)
         else if body \<noteq> [] \<and> list_all isDigit body
           then Some (Num (sign * int (digitsToNat 10 0 body)))
         else if isUnsignedDecimalLiteral body \<or> isNonDecimalLiteral t then None
         else Some NaN)"

text \<open>A number inside a template string: decimal digits, with a minus sign if negative.\<close>

definition digitChar :: "nat \<Rightarrow> char" where
  "digitChar d = char_of (48 + d)"

function showNat :: "nat \<Rightarrow> string" where
  "showNat n = (if n < 10 then [digitChar n] else showNat (n div 10) @ [digitChar (n mod 10)])"
  by pat_completeness auto
termination
  by (relation "measure id") auto

declare showNat.simps [simp del]

definition showInt :: "int \<Rightarrow> string" where
  "showInt n = (if n < 0 then CHR ''-'' # showNat (nat (- n)) else showNat (nat n))"

text \<open>
  The values a destructured array element can hold: a number, or \<open>undefined\<close>
  (\<open>None\<close>) when the array is too short. Comparison with \<open>undefined\<close> or \<open>NaN\<close>
  is false, adding 1 to either gives \<open>NaN\<close>.
\<close>

definition greaterThan_js :: "jsnum option \<Rightarrow> int \<Rightarrow> bool" where
  "greaterThan_js x k = (case x of Some (Num n) \<Rightarrow> n > k | _ \<Rightarrow> False)"

definition lessThan_js :: "jsnum option \<Rightarrow> int \<Rightarrow> bool" where
  "lessThan_js x k = (case x of Some (Num n) \<Rightarrow> n < k | _ \<Rightarrow> False)"

definition plusOne_js :: "jsnum option \<Rightarrow> jsnum option" where
  "plusOne_js x = (case x of Some (Num n) \<Rightarrow> Some (Num (n + 1)) | _ \<Rightarrow> Some NaN)"

definition template_js :: "jsnum option \<Rightarrow> string" where
  "template_js x =
     (case x of None \<Rightarrow> ''undefined'' | Some NaN \<Rightarrow> ''NaN'' | Some (Num n) \<Rightarrow> showInt n)"

section \<open>The world of the scripts\<close>

text \<open>
  Each script is a process that queries the version-control system through a shell and
  reads and writes files. The shell is a function from a command line to the text the
  command prints, or \<open>None\<close> when the command fails (\<open>execSync\<close> throws). The
  files are the root manifest, the library manifest when there is one, and the changelog
  when there is one. A manifest is a well-formed JSON object whose \<open>name\<close> and
  \<open>version\<close> are strings; its other fields are never touched. The root manifest
  always exists.
\<close>

type_synonym shell = "string \<Rightarrow> string option"

record manifest =
  name :: string
  version :: string

record files =
  rootManifest :: manifest
  libManifest :: "manifest option"
  changelog :: "string option"

text \<open>A run either returns (exit status 0) or calls \<open>process.exit\<close>; both leave
  the files as they are at that moment.\<close>

datatype outcome = Returned files | Exited nat files

fun exitStatus :: "outcome \<Rightarrow> nat" where
  "exitStatus (Returned fs) = 0"
| "exitStatus (Exited n fs) = n"

fun filesAfter :: "outcome \<Rightarrow> files" where
  "filesAfter (Returned fs) = fs"
| "filesAfter (Exited n fs) = fs"

definition newline :: char where
  "newline = CHR 0x0A"

definition doubleQuote :: char where
  "doubleQuote = CHR 0x22"

text \<open>\<open>getCurrentBranch\<close> of the Resolver and of the Bumper: \<open>None\<close>
  stands for the failed query, on which the function calls \<open>process.exit(1)\<close>.\<close>

definition getCurrentBranch :: "shell \<Rightarrow> string option" where
  "getCurrentBranch sh = map_option trim_js (sh ''git rev-parse --abbrev-ref HEAD'')"

text \<open>\<open>runCommand\<close> of the Bumper and of the Changelog Generator: a failed
  command is logged and gives the empty string.\<close>

definition runCommand :: "shell \<Rightarrow> string \<Rightarrow> string" where
  "runCommand sh command = (case sh command of None \<Rightarrow> [] | Some result \<Rightarrow> trim_js result)"

definition describeCommand :: string where
  "describeCommand =
     ''git describe --tags --abbrev=0 2>/dev/null || echo '' @ [doubleQuote, doubleQuote]"

section \<open>The Branch/Version Resolver\<close>

definition withSuffix :: "string \<Rightarrow> manifest \<Rightarrow> manifest" where
  "withSuffix packageNameSuffix m =
     (if packageNameSuffix \<noteq> [] \<and> \<not> includes_js (name m) packageNameSuffix
      then m\<lparr>name := name m @ packageNameSuffix\<rparr> else m)"

text \<open>The three components as \<open>updatePackageVersion\<close> and
  \<open>validateVersionForBranch\<close> read them: \<open>parseInt(versionParts[i]) || 0\<close>.\<close>

definition versionComponent :: "string \<Rightarrow> nat \<Rightarrow> int" where
  "versionComponent currentVersion i =
     (let versionParts = split_js CHR ''.'' currentVersion
      in orZero (parseInt_arg (index_js versionParts i)))"

definition updatePackageVersion :: "shell \<Rightarrow> files \<Rightarrow> outcome" where
  "updatePackageVersion sh fs =
     (let packageJson = rootManifest fs
      in case getCurrentBranch sh of
           None \<Rightarrow> Exited 1 fs
         | Some currentBranch \<Rightarrow>
             (let currentVersion = version packageJson;
                  currentMajor = versionComponent currentVersion 0;
                  currentMinor = versionComponent currentVersion 1;
                  currentPatch = versionComponent currentVersion 2;
                  packageNameSuffix = []
              in if currentBranch = ''main'' then
                   (let targetMajor = 15;
                        newVersion =
                          (if currentMajor \<noteq> targetMajor
                           then showInt targetMajor @ ''.2.'' @ showInt currentPatch
                           else currentVersion)
                    in if newVersion \<noteq> currentVersion then
                         Returned (fs\<lparr>rootManifest :=
                                        withSuffix packageNameSuffix (packageJson\<lparr>version := newVersion\<rparr>),
                                      libManifest :=
                                        map_option
                                          (\<lambda>libPackageJson.
                                             withSuffix packageNameSuffix
                                               (libPackageJson\<lparr>version := newVersion\<rparr>))
                                          (libManifest fs)\<rparr>)
                       else if packageNameSuffix \<noteq> []
                               \<and> \<not> includes_js (name packageJson) packageNameSuffix then
                         Returned (fs\<lparr>rootManifest :=
                                        packageJson\<lparr>name := name packageJson @ packageNameSuffix\<rparr>\<rparr>)
                       else Returned fs)
                 else Returned fs))"

definition validateVersionForBranch :: "shell \<Rightarrow> files \<Rightarrow> outcome" where
  "validateVersionForBranch sh fs =
     (case getCurrentBranch sh of
        None \<Rightarrow> Exited 1 fs
      | Some currentBranch \<Rightarrow>
          (let currentVersion = version (rootManifest fs);
               currentMajor = versionComponent currentVersion 0
           in if currentBranch = ''main'' \<and> currentMajor \<noteq> 15 then Exited 1 fs
              else Returned fs))"

section \<open>The Safe Version Bumper: classifying commits\<close>

text \<open>
  \<open>analyzeCommits\<close> walks over the commit lines with three flags.
  The three tests of the loop body are applied to \<open>message = commit.toLowerCase()\<close>.
\<close>

definition isBreaking :: "string \<Rightarrow> bool" where
  "isBreaking message =
     (includes_js message ''breaking change'' \<or> includes_js message ''!:'')"

definition isFeature :: "string \<Rightarrow> bool" where
  "isFeature message =
     (startsWith_js message ''feat:'' \<or> startsWith_js message ''feat('')"

definition isFix :: "string \<Rightarrow> bool" where
  "isFix message =
     (startsWith_js message ''fix:'' \<or> startsWith_js message ''fix('')"

record flags =
  hasBreaking :: bool
  hasFeature :: bool
  hasFix :: bool

definition analyzeStep :: "flags \<Rightarrow> string \<Rightarrow> flags" where
  "analyzeStep f commit =
     (let message = toLowerCase_js commit;
          f1 = (if isBreaking message then f\<lparr>hasBreaking := True\<rparr> else f);
          f2 = (if isFeature message then f1\<lparr>hasFeature := True\<rparr> else f1);
          f3 = (if isFix message then f2\<lparr>hasFix := True\<rparr> else f2)
      in f3)"

fun analyzeLoop :: "flags \<Rightarrow> string list \<Rightarrow> flags" where
  "analyzeLoop f [] = f"
| "analyzeLoop f (commit # commits) = analyzeLoop (analyzeStep f commit) commits"

definition analyzeCommits :: "string list \<Rightarrow> string" where
  "analyzeCommits commits =
     (let f = analyzeLoop \<lparr>hasBreaking = False, hasFeature = False, hasFix = False\<rparr> commits
      in if hasBreaking f \<or> hasFeature f then ''minor''
         else if hasFix f then ''patch''
         else ''patch'')"

text \<open>
  A commit record is a hash and a message. \<open>git log --oneline\<close> prints it as one line:
  the abbreviated hash (at least four hexadecimal digits), a space and the message. These
  lines are what \<open>getCommitsSinceLastTag\<close> hands to \<open>analyzeCommits\<close>.
\<close>

definition onelineOf :: "string \<Rightarrow> string \<Rightarrow> string" where
  "onelineOf hash message = hash @ '' '' @ message"

section \<open>The Safe Version Bumper: computing and writing the version\<close>

record constraints =
  maxMajor :: int
  defaultMinor :: int

definition getVersionConstraints :: "string \<Rightarrow> constraints option" where
  "getVersionConstraints branch =
     (if branch = ''main'' then Some \<lparr>maxMajor = 15, defaultMinor = 2\<rparr> else None)"

text \<open>\<open>getCommitsSinceLastTag\<close> of the Bumper. Both queries go through
  \<open>runCommand\<close>, which never throws.\<close>

definition gitLogCommand :: "string \<Rightarrow> string" where
  "gitLogCommand lastTag =
     (if lastTag \<noteq> [] then ''git log '' @ lastTag @ ''..HEAD --oneline''
      else ''git log --oneline -10'')"

definition getCommitsSinceLastTag :: "shell \<Rightarrow> string list" where
  "getCommitsSinceLastTag sh =
     (let lastTag = runCommand sh describeCommand;
          commits = runCommand sh (gitLogCommand lastTag)
      in if commits \<noteq> [] then filter (\<lambda>line. trim_js line \<noteq> []) (split_js newline commits)
         else [])"

text \<open>\<open>calculateNewVersion\<close>: the version is split at the dots and every part goes
  through \<open>Number\<close>; the first three are \<open>major\<close>, \<open>minor\<close> and \<open>patch\<close>.\<close>

definition calculateNewVersion :: "string \<Rightarrow> string \<Rightarrow> constraints \<Rightarrow> string option" where
  "calculateNewVersion currentVersion bumpType c =
     (case those (map Number_js (split_js CHR ''.'' currentVersion)) of
        None \<Rightarrow> None
      | Some nums \<Rightarrow>
          (let major = index_js nums 0;
               minor = index_js nums 1;
               patch = index_js nums 2
           in Some
                (if greaterThan_js major (maxMajor c) then
                   showInt (maxMajor c) @ ''.'' @ showInt (defaultMinor c) @ ''.0''
                 else if lessThan_js major (maxMajor c) then
                   showInt (maxMajor c) @ ''.'' @ showInt (defaultMinor c) @ ''.'' @ template_js patch
                 else if bumpType = ''minor'' then
                   template_js major @ ''.'' @ template_js (plusOne_js minor) @ ''.0''
                 else if bumpType = ''patch'' then
                   template_js major @ ''.'' @ template_js minor @ ''.''
                     @ template_js (plusOne_js patch)
                 else currentVersion)))"

definition updatePackageFiles :: "string \<Rightarrow> files \<Rightarrow> files" where
  "updatePackageFiles newVersion fs =
     fs\<lparr>rootManifest := (rootManifest fs)\<lparr>version := newVersion\<rparr>,
        libManifest :=
          map_option (\<lambda>libPackageJson. libPackageJson\<lparr>version := newVersion\<rparr>) (libManifest fs)\<rparr>"

text \<open>\<open>safeBumpVersion\<close>, the \<open>bump\<close> command. The result is \<open>None\<close> only when a
  version component is a numeral whose value \<open>Number_js\<close> does not compute.\<close>

definition safeBumpVersion :: "shell \<Rightarrow> files \<Rightarrow> outcome option" where
  "safeBumpVersion sh fs =
     (case getCurrentBranch sh of
        None \<Rightarrow> Some (Exited 1 fs)
      | Some currentBranch \<Rightarrow>
          (case getVersionConstraints currentBranch of
             None \<Rightarrow> Some (Returned fs)
           | Some c \<Rightarrow>
               (let currentVersion = version (rootManifest fs);
                    commits = getCommitsSinceLastTag sh
                in if length commits = 0 then Some (Returned fs)
                   else
                     (let bumpType = analyzeCommits commits
                      in case calculateNewVersion currentVersion bumpType c of
                           None \<Rightarrow> None
                         | Some newVersion \<Rightarrow>
                             if newVersion = currentVersion then Some (Returned fs)
                             else
                               (case those (map Number_js (split_js CHR ''.'' newVersion)) of
                                  None \<Rightarrow> None
                                | Some newNums \<Rightarrow>
                                    if greaterThan_js (index_js newNums 0) (maxMajor c)
                                    then Some (Exited 1 fs)
                                    else Some (Returned (updatePackageFiles newVersion fs)))))))"

section \<open>The Changelog Generator\<close>

text \<open>The generator has its own \<open>getCommitsSinceLastTag\<close>, which also returns the
  tag (\<open>lastTag || null\<close>).\<close>

definition gitLogCommand_changelog :: "string \<Rightarrow> string" where
  "gitLogCommand_changelog lastTag =
     (if lastTag \<noteq> [] then ''git log '' @ lastTag @ ''..HEAD --oneline --no-merges''
      else ''git log --oneline --no-merges -10'')"

definition getCommitsSinceLastTag_changelog :: "shell \<Rightarrow> string list \<times> string option" where
  "getCommitsSinceLastTag_changelog sh =
     (let lastTag = runCommand sh describeCommand;
          commits = runCommand sh (gitLogCommand_changelog lastTag)
      in (if commits \<noteq> [] then filter (\<lambda>line. trim_js line \<noteq> []) (split_js newline commits)
          else [],
          if lastTag \<noteq> [] then Some lastTag else None))"

text \<open>The four buckets of \<open>categorizeCommits\<close>; the source's field \<open>fixes\<close> is
  \<open>fixes_cat\<close> here.\<close>

record categories =
  breaking :: "string list"
  features :: "string list"
  fixes_cat :: "string list"
  other :: "string list"

text \<open>The tests of the loop body of \<open>categorizeCommits\<close>, on
  \<open>message = commit.toLowerCase()\<close>: the first is the Bumper's \<open>isBreaking\<close>, the
  other two look for the marker anywhere in the line.\<close>

definition containsFeature :: "string \<Rightarrow> bool" where
  "containsFeature message =
     (includes_js message ''feat:'' \<or> includes_js message ''feat('')"

definition containsFix :: "string \<Rightarrow> bool" where
  "containsFix message =
     (includes_js message ''fix:'' \<or> includes_js message ''fix('')"

definition categorizeStep :: "categories \<Rightarrow> string \<Rightarrow> categories" where
  "categorizeStep cats commit =
     (let message = toLowerCase_js commit;
          fullCommit = commit
      in if isBreaking message then cats\<lparr>breaking := breaking cats @ [fullCommit]\<rparr>
         else if containsFeature message then cats\<lparr>features := features cats @ [fullCommit]\<rparr>
         else if containsFix message then cats\<lparr>fixes_cat := fixes_cat cats @ [fullCommit]\<rparr>
         else cats\<lparr>other := other cats @ [fullCommit]\<rparr>)"

fun categorizeLoop :: "categories \<Rightarrow> string list \<Rightarrow> categories" where
  "categorizeLoop cats [] = cats"
| "categorizeLoop cats (commit # commits) = categorizeLoop (categorizeStep cats commit) commits"

definition categorizeCommits :: "string list \<Rightarrow> categories" where
  "categorizeCommits commits =
     categorizeLoop \<lparr>breaking = [], features = [], fixes_cat = [], other = []\<rparr> commits"

text \<open>
  The classification as the specification words it for the Generator: the Bumper's three
  tests of section 4.2, with the priority breaking, then feature, then fix, then other.
\<close>

datatype category = Breaking | Feature | Fix | Other

definition classify_spec :: "string \<Rightarrow> category" where
  "classify_spec commit =
     (let message = toLowerCase_js commit
      in if isBreaking message then Breaking
         else if isFeature message then Feature
         else if isFix message then Fix
         else Other)"

definition categorize_spec :: "string list \<Rightarrow> categories" where
  "categorize_spec commits =
     \<lparr>breaking = filter (\<lambda>c. classify_spec c = Breaking) commits,
      features = filter (\<lambda>c. classify_spec c = Feature) commits,
      fixes_cat = filter (\<lambda>c. classify_spec c = Fix) commits,
      other = filter (\<lambda>c. classify_spec c = Other) commits\<rparr>"

text \<open>\<open>findIndex\<close> gives \<open>-1\<close> when no element passes the test; \<open>slice\<close> counts a
  negative index from the end of the array.\<close>

fun findIndex_js :: "('a \<Rightarrow> bool) \<Rightarrow> 'a list \<Rightarrow> int" where
  "findIndex_js P [] = - 1"
| "findIndex_js P (x # xs) =
     (if P x then 0
      else (let r = findIndex_js P xs in if r = - 1 then - 1 else r + 1))"

definition sliceIndex :: "nat \<Rightarrow> int \<Rightarrow> nat" where
  "sliceIndex len k = (if k < 0 then nat (max (int len + k) 0) else min (nat k) len)"

definition slice_js :: "'a list \<Rightarrow> int \<Rightarrow> int \<Rightarrow> 'a list" where
  "slice_js xs start stop =
     (let a = sliceIndex (length xs) start;
          b = sliceIndex (length xs) stop
      in take (b - a) (drop a xs))"

definition sliceFrom_js :: "'a list \<Rightarrow> int \<Rightarrow> 'a list" where
  "sliceFrom_js xs start = drop (sliceIndex (length xs) start) xs"

definition defaultChangelog :: string where
  "defaultChangelog =
     ''# Changelog'' @ [newline, newline]
     @ ''All notable changes to this project will be documented in this file.''
     @ [newline, newline]"

text \<open>The test of \<open>findIndex\<close> in \<open>updateChangelog\<close>: a line that starts an entry.\<close>

definition isEntryLine :: "string \<Rightarrow> bool" where
  "isEntryLine line = startsWith_js line ''## [''"

text \<open>
  \<open>updateChangelog\<close>. \<open>headerEndIndex\<close> is \<open>findIndex(...) || lines.length\<close>: the
  right operand is taken when the index found is 0, the only falsy index.
\<close>

definition updateChangelog :: "string \<Rightarrow> files \<Rightarrow> files" where
  "updateChangelog newEntry fs =
     (let existingContent = (case changelog fs of Some text \<Rightarrow> text | None \<Rightarrow> defaultChangelog);
          lines = split_js newline existingContent;
          found = findIndex_js isEntryLine lines;
          headerEndIndex = (if found \<noteq> 0 then found else int (length lines))
      in if headerEndIndex = - 1 \<or> headerEndIndex = int (length lines) then
           (let headerLines = slice_js lines 0 3;
                newContent =
                  join_js [newline] (headerLines @ [[], trim_js newEntry, []] @ sliceFrom_js lines 3)
            in fs\<lparr>changelog := Some newContent\<rparr>)
         else
           (let newContent =
                  join_js [newline]
                    (slice_js lines 0 headerEndIndex @ [trim_js newEntry, []]
                       @ sliceFrom_js lines headerEndIndex)
            in fs\<lparr>changelog := Some newContent\<rparr>))"

text \<open>The lines of the changelog as \<open>updateChangelog\<close> reads them, and a sequence of
  insertions, the oldest entry first.\<close>

definition documentLines :: "files \<Rightarrow> string list" where
  "documentLines fs =
     split_js newline (case changelog fs of Some text \<Rightarrow> text | None \<Rightarrow> defaultChangelog)"



section \<open>Version strings\<close>

text \<open>A version as the manifests hold it and as the template strings of the scripts
  print it: \<open>major.minor.patch\<close>.\<close>

definition versionString :: "int \<Rightarrow> int \<Rightarrow> int \<Rightarrow> string" where
  "versionString major minor patch =
     showInt major @ ''.'' @ showInt minor @ ''.'' @ showInt patch"

section \<open>Example repositories and files\<close>

text \<open>
  Concrete worlds on which the theorems below are instantiated. \<open>exampleShell\<close> is a
  repository on the given branch whose latest tag is \<open>tag\<close> and in which exactly one log
  command is answered; \<open>branchShell\<close> is a repository in which only the branch query
  succeeds. \<open>exampleFiles\<close> holds both manifests at the same version and no changelog.
\<close>

definition branchShell :: "string \<Rightarrow> shell" where
  "branchShell branch command =
     (if command = ''git rev-parse --abbrev-ref HEAD'' then Some (branch @ [newline]) else None)"

definition exampleShell :: "string \<Rightarrow> string \<Rightarrow> string \<Rightarrow> string \<Rightarrow> shell" where
  "exampleShell branch tag logCommand logOutput command =
     (if command = ''git rev-parse --abbrev-ref HEAD'' then Some (branch @ [newline])
      else if command = describeCommand then Some (tag @ [newline])
      else if command = logCommand then Some logOutput
      else None)"

definition exampleFiles :: "string \<Rightarrow> files" where
  "exampleFiles v =
     \<lparr>rootManifest = \<lparr>name = ''date-time-picker'', version = v\<rparr>,
      libManifest = Some \<lparr>name = ''picker'', version = v\<rparr>,
      changelog = None\<rparr>"

text \<open>
  \<open>mergeShell\<close> is a repository on main, tagged \<open>main-v15.2.5\<close>, with two commits
  after the tag: a fix and, on top of it, the merge commit of a pull request. Its log
  prints both, and with \<open>--no-merges\<close> the fix alone.
\<close>

definition mergeShell :: shell where
  "mergeShell command =
     (if command = ''git rev-parse --abbrev-ref HEAD'' then Some (''main'' @ [newline])
      else if command = describeCommand then Some (''main-v15.2.5'' @ [newline])
      else if command = ''git log main-v15.2.5..HEAD --oneline'' then
        Some (''c0ffee1 Merge pull request #12 from dev'' @ [newline]
              @ ''a1b2c3d fix: a'' @ [newline])
      else if command = ''git log main-v15.2.5..HEAD --oneline --no-merges'' then
        Some (''a1b2c3d fix: a'' @ [newline])
      else None)"


definition headlessChangelog :: string where
  "headlessChangelog =
     ''## [15.2.0] - 2024-01-01'' @ [newline, newline]
     @ ''- first release (abc1234)'' @ [newline]"

definition exampleEntry :: "string \<Rightarrow> string" where
  "exampleEntry v =
     ''## ['' @ v @ ''] - 2024-01-15'' @ [newline, newline]
     @ ''### Angular 15.x Compatibility'' @ [newline, newline]
     @ ''- fix: a (a1b2c3d)'' @ [newline, newline]"

section \<open>Properties\<close>

subsection \<open>Searching a string\<close>

lemma startsWith_js_iff: "startsWith_js s p \<longleftrightarrow> (\<exists>r. s = p @ r)"
  unfolding startsWith_js_def
  by (metis append_eq_conv_conj append_take_drop_id)

lemma includes_js_iff: "includes_js s p \<longleftrightarrow> (\<exists>a b. s = a @ p @ b)"
proof (induction s)
  case Nil
  then show ?case by auto
next
  case (Cons c cs)
  show ?case
  proof
    assume "includes_js (c # cs) p"
    then consider "startsWith_js (c # cs) p" | "includes_js cs p" by auto
    then show "\<exists>a b. c # cs = a @ p @ b"
    proof cases
      case 1
      then obtain r where "c # cs = p @ r" by (auto simp: startsWith_js_iff)
      then have "c # cs = [] @ p @ r" by simp
      then show ?thesis by blast
    next
      case 2
      then obtain a b where "cs = a @ p @ b" using Cons.IH by blast
      then have "c # cs = (c # a) @ p @ b" by simp
      then show ?thesis by blast
    qed
  next
    assume "\<exists>a b. c # cs = a @ p @ b"
    then obtain a b where ab: "c # cs = a @ p @ b" by blast
    show "includes_js (c # cs) p"
    proof (cases a)
      case Nil
      with ab have "startsWith_js (c # cs) p" by (auto simp: startsWith_js_iff)
      then show ?thesis by simp
    next
      case (Cons a0 as)
      with ab have "cs = as @ p @ b" by simp
      then have "includes_js cs p" using Cons.IH by blast
      then show ?thesis by simp
    qed
  qed
qed

lemma of_char_toLower_char:
  "(of_char (toLower_char c) :: nat) = of_char c \<or> (97::nat) \<le> of_char (toLower_char c)"
  by (auto simp: toLower_char_def Let_def)

lemma toLower_char_eq_iff:
  assumes "(of_char d :: nat) < 65"
  shows "toLower_char c = d \<longleftrightarrow> c = d"
proof
  assume "toLower_char c = d"
  then have "(of_char (toLower_char c) :: nat) < 65" using assms by simp
  then show "c = d"
    using \<open>toLower_char c = d\<close> by (auto simp: toLower_char_def Let_def split: if_splits)
next
  assume "c = d"
  then show "toLower_char c = d" using assms by (simp add: toLower_char_def Let_def)
qed

lemma includes_js_map_pair:
  assumes "\<And>x. f x = a \<longleftrightarrow> x = a" and "\<And>x. f x = b \<longleftrightarrow> x = b"
  shows "includes_js (map f s) [a, b] \<longleftrightarrow> includes_js s [a, b]"
proof (induction s)
  case Nil
  show ?case by simp
next
  case (Cons c cs)
  have "startsWith_js (map f (c # cs)) [a, b] \<longleftrightarrow> startsWith_js (c # cs) [a, b]"
    using assms by (cases cs) (auto simp: startsWith_js_def)
  then show ?case using Cons.IH by simp
qed

lemma includes_js_lower_bang:
  "includes_js (toLowerCase_js s) ''!:'' \<longleftrightarrow> includes_js s ''!:''"
  unfolding toLowerCase_js_def
  by (rule includes_js_map_pair) (simp_all add: toLower_char_eq_iff)

subsection \<open>Classifying commits\<close>

lemma analyzeLoop_hasBreaking:
  "hasBreaking (analyzeLoop f cs) \<longleftrightarrow>
     hasBreaking f \<or> (\<exists>c \<in> set cs. isBreaking (toLowerCase_js c))"
  by (induction cs arbitrary: f) (auto simp: analyzeStep_def Let_def)

lemma analyzeLoop_hasFeature:
  "hasFeature (analyzeLoop f cs) \<longleftrightarrow>
     hasFeature f \<or> (\<exists>c \<in> set cs. isFeature (toLowerCase_js c))"
  by (induction cs arbitrary: f) (auto simp: analyzeStep_def Let_def)

lemma analyzeLoop_hasFix:
  "hasFix (analyzeLoop f cs) \<longleftrightarrow>
     hasFix f \<or> (\<exists>c \<in> set cs. isFix (toLowerCase_js c))"
  by (induction cs arbitrary: f) (auto simp: analyzeStep_def Let_def)

text \<open>
  On the lines it is handed, \<open>analyzeCommits\<close> answers \<open>minor\<close> when some line
  contains "breaking change" in any letter case or the substring "!:", or begins with
  "feat:" or "feat(" in any letter case, and \<open>patch\<close> otherwise; it never answers
  \<open>major\<close>. The prefix tests are made on the whole line.
\<close>

lemma analyzeCommits_on_lines:
  "analyzeCommits commits =
     (if \<exists>c \<in> set commits.
           includes_js (toLowerCase_js c) ''breaking change'' \<or> includes_js c ''!:''
           \<or> startsWith_js (toLowerCase_js c) ''feat:''
           \<or> startsWith_js (toLowerCase_js c) ''feat(''
      then ''minor'' else ''patch'')
   \<and> analyzeCommits commits \<noteq> ''major''"
  by (auto simp: analyzeCommits_def Let_def analyzeLoop_hasBreaking analyzeLoop_hasFeature
      isBreaking_def isFeature_def includes_js_lower_bang)

text \<open>
  A line of \<open>git log --oneline\<close> begins with the hash, and no hash of four or more
  hexadecimal digits begins like "feat" or "fix": the fourth character of the one and the
  second of the other are no hexadecimal digits. So no such line passes a prefix test,
  whatever the message, and on the lines of real commit records only the breaking test
  decides.
\<close>

lemma hex_digit_lower:
  assumes "isRadixDigit 16 c"
  shows "toLower_char c \<noteq> CHR ''t'' \<and> toLower_char c \<noteq> CHR ''i''"
proof -
  have n: "(of_char c :: nat) \<le> 57 \<or> (65 \<le> (of_char c :: nat) \<and> (of_char c :: nat) \<le> 70)
           \<or> (97 \<le> (of_char c :: nat) \<and> (of_char c :: nat) \<le> 102)"
    using assms by (auto simp: isRadixDigit_def digitValue_def Let_def split: if_splits)
  have "(of_char (toLower_char c) :: nat) \<noteq> 116 \<and> (of_char (toLower_char c) :: nat) \<noteq> 105"
    using n by (auto simp: toLower_char_def Let_def)
  then show ?thesis by auto
qed

lemma prefix_tests_fail_after_hash:
  assumes "4 \<le> length hash" and "list_all (isRadixDigit 16) hash"
  shows "\<not> isFeature (toLowerCase_js (onelineOf hash message))
       \<and> \<not> isFix (toLowerCase_js (onelineOf hash message))"
proof -
  obtain a t1 where h1: "hash = a # t1" using assms(1) by (cases hash) auto
  obtain b t2 where h2: "t1 = b # t2" using assms(1) h1 by (cases t1) auto
  obtain c t3 where h3: "t2 = c # t3" using assms(1) h1 h2 by (cases t2) auto
  obtain d r where h4: "t3 = d # r" using assms(1) h1 h2 h3 by (cases t3) auto
  have h: "hash = a # b # c # d # r" using h1 h2 h3 h4 by simp
  have "toLower_char d \<noteq> CHR ''t''" "toLower_char b \<noteq> CHR ''i''"
    using assms(2) h hex_digit_lower by auto
  then show ?thesis
    by (simp add: isFeature_def isFix_def startsWith_js_def toLowerCase_js_def onelineOf_def h)
qed

lemma analyzeCommits_of_records:
  assumes "\<forall>(hash, message) \<in> set records.
             4 \<le> length hash \<and> list_all (isRadixDigit 16) hash"
  shows "analyzeCommits (map (\<lambda>(hash, message). onelineOf hash message) records) =
           (if \<exists>(hash, message) \<in> set records.
                 isBreaking (toLowerCase_js (onelineOf hash message))
            then ''minor'' else ''patch'')"
proof -
  have "\<not> isFeature (toLowerCase_js (onelineOf hash message))"
    if "(hash, message) \<in> set records" for hash message
    using assms that prefix_tests_fail_after_hash [of hash message] by auto
  then show ?thesis
    by (auto simp: analyzeCommits_def Let_def analyzeLoop_hasBreaking analyzeLoop_hasFeature)
qed

text \<open>
  C1. The claim asks for \<open>minor\<close> as soon as the message of some commit record begins
  with "feat:" or "feat(". The commit with hash \<open>e4f5a6b\<close> and message \<open>feat: b\<close> is
  such a record, and the Bumper receives it as the line \<open>e4f5a6b feat: b\<close>; on it
  \<open>analyzeCommits\<close> answers \<open>patch\<close>, because the prefix test is made on the line and
  not on the message.
\<close>

theorem analyzeCommits_feature_after_hash:
  "isFeature (toLowerCase_js ''feat: b'')
   \<and> onelineOf ''e4f5a6b'' ''feat: b'' = ''e4f5a6b feat: b''
   \<and> analyzeCommits [onelineOf ''e4f5a6b'' ''feat: b''] = ''patch''"
  by code_simp

subsection \<open>Splitting and parsing\<close>

lemma split_js_not_Nil [simp]: "split_js sep s \<noteq> []"
  by (induction s) (auto split: list.splits)

lemma split_js_no_sep: "sep \<notin> set a \<Longrightarrow> split_js sep a = [a]"
  by (induction a) (auto split: list.splits)

lemma split_js_append_sep:
  "sep \<notin> set a \<Longrightarrow> split_js sep (a @ sep # b) = a # split_js sep b"
  by (induction a) (auto split: list.splits)

lemma versionComponent_15_2: "versionComponent (''15.2.'' @ r) 0 = 15"
proof -
  have "split_js CHR ''.'' (''15'' @ CHR ''.'' # (''2.'' @ r))
        = ''15'' # split_js CHR ''.'' (''2.'' @ r)"
    by (rule split_js_append_sep) simp
  then show ?thesis
    by (simp add: versionComponent_def parseInt_arg_def parseInt_js_def trimStart_js_def
        isWhiteSpace_def startsWith_js_def isRadixDigit_def digitValue_def orZero_def Let_def)
qed

lemma showInt_15: "showInt 15 = ''15''"
  by code_simp

lemma versionComponent_NaN:
  "parseInt_arg (index_js (split_js CHR ''.'' v) i) = NaN \<Longrightarrow> versionComponent v i = 0"
  by (simp add: versionComponent_def orZero_def)

lemma parseInt_undefined: "parseInt_arg None = NaN"
  by code_simp

subsection \<open>Lines, indices and slices\<close>














lemma join_js_Cons_Cons: "join_js sep ((x # w) # ws) = x # join_js sep (w # ws)"
  by (cases ws) simp_all

lemma join_js_split_js: "join_js [sep] (split_js sep s) = s"
proof (induction s)
  case Nil
  show ?case by simp
next
  case (Cons x s)
  obtain w ws where w: "split_js sep s = w # ws"
    by (cases "split_js sep s") auto
  show ?case
  proof (cases "x = sep")
    case True
    then show ?thesis using Cons.IH w by simp
  next
    case False
    then show ?thesis using Cons.IH w by (simp add: join_js_Cons_Cons)
  qed
qed

subsection \<open>Printing a number and reading it back\<close>

lemma of_char_digitChar: "d < 10 \<Longrightarrow> (of_char (digitChar d) :: nat) = 48 + d"
  by (simp add: digitChar_def)

lemma isDigit_digitChar: "d < 10 \<Longrightarrow> isDigit (digitChar d)"
  by (simp add: isDigit_def of_char_digitChar)

lemma digitValue_digitChar: "d < 10 \<Longrightarrow> digitValue (digitChar d) = Some d"
  by (simp add: digitValue_def of_char_digitChar)

lemma showNat_not_Nil [simp]: "showNat n \<noteq> []"
  by (subst showNat.simps) simp

lemma showNat_digits: "list_all isDigit (showNat n)"
proof (induction n rule: showNat.induct)
  case (1 n)
  show ?case
  proof (cases "n < 10")
    case True
    then show ?thesis by (subst showNat.simps) (simp add: isDigit_digitChar)
  next
    case False
    then show ?thesis
      using "1.IH" by (subst showNat.simps) (simp add: isDigit_digitChar)
  qed
qed

lemma digitsToNat_append:
  "digitsToNat R acc (xs @ ys) = digitsToNat R (digitsToNat R acc xs) ys"
  by (induction xs arbitrary: acc) auto

lemma digitsToNat_showNat: "digitsToNat 10 0 (showNat n) = n"
proof (induction n rule: showNat.induct)
  case (1 n)
  show ?case
  proof (cases "n < 10")
    case True
    then show ?thesis by (subst showNat.simps) (simp add: digitValue_digitChar)
  next
    case False
    then show ?thesis
      using "1.IH" by (subst showNat.simps) (simp add: digitsToNat_append digitValue_digitChar)
  qed
qed

lemma isDigit_not_ws: "isDigit c \<Longrightarrow> \<not> isWhiteSpace c"
  by (auto simp: isDigit_def isWhiteSpace_def)

lemma isDigit_not_special:
  "isDigit c \<Longrightarrow> c \<noteq> CHR ''.'' \<and> c \<noteq> CHR ''+'' \<and> c \<noteq> CHR ''-''"
  by (auto simp: isDigit_def)

lemma trim_js_id:
  assumes "s \<noteq> []" "\<not> isWhiteSpace (hd s)" "\<not> isWhiteSpace (last s)"
  shows "trim_js s = s"
proof -
  have "dropWhile isWhiteSpace s = s"
    using assms(1,2) by (cases s) auto
  moreover have "dropWhile isWhiteSpace (rev s) = rev s"
    using assms(1,3) by (cases "rev s") (auto simp: hd_rev [symmetric] dest: sym)
  ultimately show ?thesis by (simp add: trim_js_def)
qed

lemma trim_js_digits:
  assumes "s \<noteq> []" "list_all isDigit s"
  shows "trim_js s = s"
proof (rule trim_js_id)
  show "s \<noteq> []" by fact
  show "\<not> isWhiteSpace (hd s)"
    using assms by (cases s) (auto simp: isDigit_not_ws)
  show "\<not> isWhiteSpace (last s)"
    using assms by (auto simp: list_all_iff isDigit_not_ws)
qed

lemma Number_js_digits:
  assumes "s \<noteq> []" "list_all isDigit s"
  shows "Number_js s = Some (Num (int (digitsToNat 10 0 s)))"
proof -
  have t: "trim_js s = s"
    using assms by (rule trim_js_digits)
  obtain c r where cr: "s = c # r"
    using assms(1) by (cases s) auto
  have "isDigit c" using assms(2) cr by simp
  then have c: "c \<noteq> CHR ''+''" "c \<noteq> CHR ''-''" using isDigit_not_special by auto
  have body: "(case s of [] \<Rightarrow> s | c # r \<Rightarrow> if c = CHR ''+'' \<or> c = CHR ''-'' then r else s) = s"
    using c cr by simp
  have sign: "(case s of [] \<Rightarrow> (1::int) | c # r \<Rightarrow> if c = CHR ''-'' then - 1 else 1) = 1"
    using c cr by simp
  show ?thesis
    unfolding Number_js_def t Let_def body sign using assms by simp
qed

lemma Number_js_showNat: "Number_js (showNat n) = Some (Num (int n))"
  using Number_js_digits [of "showNat n"] by (simp add: showNat_digits digitsToNat_showNat)

lemma index_js_three:
  "index_js (a # r) 0 = Some a"
  "index_js (a # b # r) 1 = Some b"
  "index_js (a # b # c # r) 2 = Some c"
  by (simp_all add: eval_nat_numeral)

lemma showNat_no_dot: "CHR ''.'' \<notin> set (showNat n)"
  using showNat_digits [of n] isDigit_not_special by (auto simp: list_all_iff)

lemma showInt_int [simp]: "showInt (int n) = showNat n"
  by (simp add: showInt_def)

lemma split_versionString:
  "split_js CHR ''.'' (versionString (int a) (int b) (int c)) = [showNat a, showNat b, showNat c]"
proof -
  have "split_js CHR ''.'' (showNat a @ CHR ''.'' # (showNat b @ CHR ''.'' # showNat c))
        = showNat a # split_js CHR ''.'' (showNat b @ CHR ''.'' # showNat c)"
    by (rule split_js_append_sep) (rule showNat_no_dot)
  also have "split_js CHR ''.'' (showNat b @ CHR ''.'' # showNat c)
        = showNat b # split_js CHR ''.'' (showNat c)"
    by (rule split_js_append_sep) (rule showNat_no_dot)
  also have "split_js CHR ''.'' (showNat c) = [showNat c]"
    by (rule split_js_no_sep) (rule showNat_no_dot)
  finally show ?thesis by (simp add: versionString_def)
qed

subsection \<open>The Resolver\<close>

text \<open>On branch main the update rewrites exactly the versions whose major is not 15. The
  new version never equals the old one then, because the old one does not have major 15.\<close>

lemma updatePackageVersion_main:
  assumes "getCurrentBranch sh = Some ''main''"
  shows "updatePackageVersion sh fs =
     Returned
       (if versionComponent (version (rootManifest fs)) 0 \<noteq> 15
        then updatePackageFiles
               (''15.2.'' @ showInt (versionComponent (version (rootManifest fs)) 2)) fs
        else fs)"
proof (cases "versionComponent (version (rootManifest fs)) 0 = 15")
  case True
  then show ?thesis
    using assms by (simp add: updatePackageVersion_def Let_def)
next
  case False
  have "''15.2.'' @ showInt (versionComponent (version (rootManifest fs)) 2)
        \<noteq> version (rootManifest fs)"
    using False versionComponent_15_2 by metis
  then show ?thesis
    using assms False
    by (simp add: updatePackageVersion_def Let_def showInt_15 withSuffix_def
        updatePackageFiles_def)
qed

lemma updatePackageVersion_other:
  assumes "getCurrentBranch sh = Some branch" and "branch \<noteq> ''main''"
  shows "updatePackageVersion sh fs = Returned fs"
  using assms by (simp add: updatePackageVersion_def Let_def)

lemma updatePackageVersion_no_branch:
  "getCurrentBranch sh = None \<Longrightarrow> updatePackageVersion sh fs = Exited 1 fs"
  by (simp add: updatePackageVersion_def Let_def)

lemma validateVersionForBranch_branch:
  assumes "getCurrentBranch sh = Some branch"
  shows "validateVersionForBranch sh fs =
     (if branch = ''main'' \<and> versionComponent (version (rootManifest fs)) 0 \<noteq> 15
      then Exited 1 fs else Returned fs)"
  using assms by (simp add: validateVersionForBranch_def Let_def)

lemma validateVersionForBranch_no_branch:
  "getCurrentBranch sh = None \<Longrightarrow> validateVersionForBranch sh fs = Exited 1 fs"
  by (simp add: validateVersionForBranch_def)

lemma getCurrentBranch_branchShell: "getCurrentBranch (branchShell ''main'') = Some ''main''"
  by (simp add: getCurrentBranch_def branchShell_def trim_js_def isWhiteSpace_def newline_def)

lemma getCurrentBranch_branchShell_release:
  "getCurrentBranch (branchShell ''release-x'') = Some ''release-x''"
  by (simp add: getCurrentBranch_def branchShell_def trim_js_def isWhiteSpace_def newline_def)

text \<open>
  C6. On branch main a manifest whose major is not 15 is rewritten to
  \<open>15.2.{currentPatch}\<close>, in the root manifest and in the library manifest when there is
  one (\<open>updatePackageFiles\<close> is that write); a manifest whose major is 15, and any
  manifest on a branch without a policy, is left as it is. The patch is printed as read
  when it is a safe integer.
\<close>

theorem updatePackageVersion_rewrites_major:
  assumes "getCurrentBranch sh = Some branch"
  shows "(branch = ''main'' \<and> versionComponent (version (rootManifest fs)) 0 \<noteq> 15
            \<and> isSafeInteger (versionComponent (version (rootManifest fs)) 2)
          \<longrightarrow> updatePackageVersion sh fs =
                Returned (updatePackageFiles
                  (''15.2.'' @ showInt (versionComponent (version (rootManifest fs)) 2)) fs))
       \<and> (branch = ''main'' \<and> versionComponent (version (rootManifest fs)) 0 = 15
          \<longrightarrow> updatePackageVersion sh fs = Returned fs)
       \<and> (getVersionConstraints branch = None \<longrightarrow> updatePackageVersion sh fs = Returned fs)"
proof (cases "branch = ''main''")
  case True
  then show ?thesis
    using assms updatePackageVersion_main [of sh fs]
    by (simp add: getVersionConstraints_def)
next
  case False
  then show ?thesis
    using assms updatePackageVersion_other [of sh branch fs] by simp
qed

theorem updatePackageVersion_rewrites_major_witness:
  "updatePackageVersion (branchShell ''main'') (exampleFiles ''14.0.5'')
     = Returned (exampleFiles ''15.2.5'')
   \<and> updatePackageVersion (branchShell ''main'') (exampleFiles ''15.7.1'')
     = Returned (exampleFiles ''15.7.1'')
   \<and> updatePackageVersion (branchShell ''release-x'') (exampleFiles ''14.0.5'')
     = Returned (exampleFiles ''14.0.5'')"
proof -
  have major: "versionComponent ''14.0.5'' 0 = 14" by code_simp
  have patch: "versionComponent ''14.0.5'' 2 = 5" by code_simp
  have major': "versionComponent ''15.7.1'' 0 = 15" by code_simp
  have five: "showInt 5 = ''5''" by code_simp
  have safe: "isSafeInteger 5" by (simp add: isSafeInteger_def)
  have none: "getVersionConstraints ''release-x'' = None"
    by (simp add: getVersionConstraints_def)
  show ?thesis
    using updatePackageVersion_rewrites_major
            [OF getCurrentBranch_branchShell, of "exampleFiles ''14.0.5''"]
          updatePackageVersion_rewrites_major
            [OF getCurrentBranch_branchShell, of "exampleFiles ''15.7.1''"]
          updatePackageVersion_rewrites_major
            [OF getCurrentBranch_branchShell_release, of "exampleFiles ''14.0.5''"]
          major patch major' five safe none
    by (simp add: exampleFiles_def updatePackageFiles_def)
qed

text \<open>
  C7. Once the branch is known, validation ends the process with a non-zero status exactly
  when the branch has a policy and the manifest's major is not that policy's
  \<open>maxMajor\<close>; on a branch without a policy it returns normally; in no case does it
  change a file.
\<close>

theorem validateVersionForBranch_exit:
  assumes "getCurrentBranch sh = Some branch"
  shows "(exitStatus (validateVersionForBranch sh fs) \<noteq> 0 \<longleftrightarrow>
            (\<exists>c. getVersionConstraints branch = Some c
                 \<and> versionComponent (version (rootManifest fs)) 0 \<noteq> maxMajor c))
       \<and> (getVersionConstraints branch = None \<longrightarrow> validateVersionForBranch sh fs = Returned fs)
       \<and> filesAfter (validateVersionForBranch sh fs) = fs"
  using validateVersionForBranch_branch [OF assms, of fs]
  by (auto simp: getVersionConstraints_def)

theorem validateVersionForBranch_exit_witness:
  "exitStatus (validateVersionForBranch (branchShell ''main'') (exampleFiles ''14.0.5'')) \<noteq> 0
   \<and> exitStatus (validateVersionForBranch (branchShell ''main'') (exampleFiles ''15.2.5'')) = 0
   \<and> validateVersionForBranch (branchShell ''release-x'') (exampleFiles ''14.0.5'')
     = Returned (exampleFiles ''14.0.5'')"
proof -
  have major: "versionComponent ''14.0.5'' 0 = 14" by code_simp
  have major': "versionComponent ''15.2.5'' 0 = 15" by code_simp
  have none: "getVersionConstraints ''release-x'' = None"
    by (simp add: getVersionConstraints_def)
  have main: "getVersionConstraints ''main'' = Some \<lparr>maxMajor = 15, defaultMinor = 2\<rparr>"
    by (simp add: getVersionConstraints_def)
  show ?thesis
    using validateVersionForBranch_exit
            [OF getCurrentBranch_branchShell, of "exampleFiles ''14.0.5''"]
          validateVersionForBranch_exit
            [OF getCurrentBranch_branchShell, of "exampleFiles ''15.2.5''"]
          validateVersionForBranch_exit
            [OF getCurrentBranch_branchShell_release, of "exampleFiles ''14.0.5''"]
          major major' none main
    by (simp add: exampleFiles_def)
qed

text \<open>
  C10 as stated fails: the version \<open>15.x\<close> is malformed (its minor is no integer and its
  patch is missing, and both are read as 0), yet on branch main the update leaves it as it
  is and the validation accepts it, because only the major is compared with 15.
\<close>

theorem malformed_version_kept_and_accepted:
  "versionComponent ''15.x'' 1 = 0
   \<and> versionComponent ''15.x'' 2 = 0
   \<and> updatePackageVersion (branchShell ''main'') (exampleFiles ''15.x'')
     = Returned (exampleFiles ''15.x'')
   \<and> validateVersionForBranch (branchShell ''main'') (exampleFiles ''15.x'')
     = Returned (exampleFiles ''15.x'')"
proof -
  have major: "versionComponent ''15.x'' 0 = 15" by code_simp
  have minor: "versionComponent ''15.x'' 1 = 0" by code_simp
  have patch: "versionComponent ''15.x'' 2 = 0" by code_simp
  show ?thesis
    using updatePackageVersion_main [OF getCurrentBranch_branchShell, of "exampleFiles ''15.x''"]
          validateVersionForBranch_branch
            [OF getCurrentBranch_branchShell, of "exampleFiles ''15.x''"]
          major minor patch
    by (simp add: exampleFiles_def)
qed

text \<open>
  C10, amended. Reading a version never fails: a component for which \<open>parseInt\<close> finds
  no digit, and a component that is missing, is read as 0. So on branch main a version
  whose major component has no leading integer counts as major 0: the update rewrites it to
  \<open>15.2.{patch}\<close> and the validation exits with status 1. A version whose major reads as
  15 is kept and accepted, whatever its other components look like.
\<close>

theorem resolver_reads_malformed_components_as_zero:
  "(parseInt_arg (index_js (split_js CHR ''.'' v) i) = NaN \<longrightarrow> versionComponent v i = 0)
   \<and> (index_js (split_js CHR ''.'' v) i = None \<longrightarrow> versionComponent v i = 0)
   \<and> (getCurrentBranch sh = Some ''main''
        \<and> parseInt_arg (index_js (split_js CHR ''.'' (version (rootManifest fs))) 0) = NaN
        \<and> isSafeInteger (versionComponent (version (rootManifest fs)) 2)
      \<longrightarrow> updatePackageVersion sh fs =
            Returned (updatePackageFiles
              (''15.2.'' @ showInt (versionComponent (version (rootManifest fs)) 2)) fs)
          \<and> validateVersionForBranch sh fs = Exited 1 fs)
   \<and> (getCurrentBranch sh = Some ''main''
        \<and> versionComponent (version (rootManifest fs)) 0 = 15
      \<longrightarrow> updatePackageVersion sh fs = Returned fs
          \<and> validateVersionForBranch sh fs = Returned fs)"
proof -
  have a: "versionComponent v i = 0"
    if "parseInt_arg (index_js (split_js CHR ''.'' v) i) = NaN"
    using that by (rule versionComponent_NaN)
  have b: "versionComponent v i = 0" if "index_js (split_js CHR ''.'' v) i = None"
    using that by (simp add: versionComponent_def parseInt_undefined orZero_def)
  have c: "updatePackageVersion sh fs =
            Returned (updatePackageFiles
              (''15.2.'' @ showInt (versionComponent (version (rootManifest fs)) 2)) fs)
          \<and> validateVersionForBranch sh fs = Exited 1 fs"
    if "getCurrentBranch sh = Some ''main''"
      and "parseInt_arg (index_js (split_js CHR ''.'' (version (rootManifest fs))) 0) = NaN"
  proof -
    have "versionComponent (version (rootManifest fs)) 0 = 0"
      using that(2) by (rule versionComponent_NaN)
    then show ?thesis
      using updatePackageVersion_main [OF that(1), of fs]
        validateVersionForBranch_branch [OF that(1), of fs]
      by simp
  qed
  have d: "updatePackageVersion sh fs = Returned fs
          \<and> validateVersionForBranch sh fs = Returned fs"
    if "getCurrentBranch sh = Some ''main''"
      and "versionComponent (version (rootManifest fs)) 0 = 15"
    using updatePackageVersion_main [OF that(1), of fs]
      validateVersionForBranch_branch [OF that(1), of fs] that(2)
    by simp
  show ?thesis
    using a b c d by blast
qed

theorem resolver_reads_malformed_components_as_zero_witness:
  "versionComponent ''x.1'' 0 = 0
   \<and> versionComponent ''x.1'' 2 = 0
   \<and> updatePackageVersion (branchShell ''main'') (exampleFiles ''x.1'')
     = Returned (exampleFiles ''15.2.0'')
   \<and> validateVersionForBranch (branchShell ''main'') (exampleFiles ''x.1'')
     = Exited 1 (exampleFiles ''x.1'')
   \<and> updatePackageVersion (branchShell ''main'') (exampleFiles ''15.2.5'')
     = Returned (exampleFiles ''15.2.5'')"
proof -
  have nan: "parseInt_arg (index_js (split_js CHR ''.'' ''x.1'') 0) = NaN" by code_simp
  have missing: "index_js (split_js CHR ''.'' ''x.1'') 2 = None" by code_simp
  have zero: "showInt 0 = ''0''" by code_simp
  have safe: "isSafeInteger 0" by (simp add: isSafeInteger_def)
  have major: "versionComponent ''15.2.5'' 0 = 15" by code_simp
  have v: "version (rootManifest (exampleFiles w)) = w" for w
    by (simp add: exampleFiles_def)
  note t1 = resolver_reads_malformed_components_as_zero
              [of "''x.1''" 0 "branchShell ''main''" "exampleFiles ''x.1''"]
  note t2 = resolver_reads_malformed_components_as_zero
              [of "''x.1''" 2 "branchShell ''main''" "exampleFiles ''15.2.5''"]
  have p0: "versionComponent ''x.1'' 0 = 0" using t1 nan by blast
  have p2: "versionComponent ''x.1'' 2 = 0" using t2 missing by blast
  have upd: "updatePackageVersion (branchShell ''main'') (exampleFiles ''x.1'')
               = Returned (updatePackageFiles (''15.2.'' @ showInt 0) (exampleFiles ''x.1''))
             \<and> validateVersionForBranch (branchShell ''main'') (exampleFiles ''x.1'')
               = Exited 1 (exampleFiles ''x.1'')"
    using t1 getCurrentBranch_branchShell nan safe p2 by (simp add: v)
  have keep: "updatePackageVersion (branchShell ''main'') (exampleFiles ''15.2.5'')
               = Returned (exampleFiles ''15.2.5'')"
    using t2 getCurrentBranch_branchShell major by (simp add: v)
  show ?thesis
    using p0 p2 upd keep by (simp add: zero exampleFiles_def updatePackageFiles_def)
qed

subsection \<open>The Bumper\<close>

lemma calculateNewVersion_versionString:
  "calculateNewVersion (versionString (int a) (int b) (int p)) bumpType c =
     Some (if int a > maxMajor c then versionString (maxMajor c) (defaultMinor c) 0
           else if int a < maxMajor c then versionString (maxMajor c) (defaultMinor c) (int p)
           else if bumpType = ''minor'' then versionString (int a) (int b + 1) 0
           else if bumpType = ''patch'' then versionString (int a) (int b) (int p + 1)
           else versionString (int a) (int b) (int p))"
proof -
  have z: "showInt 0 = ''0''" by code_simp
  show ?thesis
    by (simp add: calculateNewVersion_def split_versionString Number_js_showNat Let_def
        greaterThan_js_def lessThan_js_def plusOne_js_def template_js_def z index_js_three)
      (simp add: versionString_def z)
qed

text \<open>
  C2. For a version of three non-negative safe integers, a bump kind \<open>minor\<close> or
  \<open>patch\<close> and any policy, \<open>calculateNewVersion\<close> gives
  \<open>{maxMajor}.{defaultMinor}.0\<close> when the major is above \<open>maxMajor\<close>,
  \<open>{maxMajor}.{defaultMinor}.{patch}\<close> when it is below, whatever the bump kind, and at
  \<open>maxMajor\<close> the minor bump \<open>(major, minor + 1, 0)\<close> or the patch bump
  \<open>(major, minor, patch + 1)\<close>.
\<close>

theorem calculateNewVersion_three_cases:
  assumes "isSafeInteger (int major)" and "isSafeInteger (int minor)"
    and "isSafeInteger (int patch)"
    and "bumpType = ''minor'' \<or> bumpType = ''patch''"
  shows "calculateNewVersion (versionString (int major) (int minor) (int patch)) bumpType c =
     Some (if int major > maxMajor c then versionString (maxMajor c) (defaultMinor c) 0
           else if int major < maxMajor c
             then versionString (maxMajor c) (defaultMinor c) (int patch)
           else if bumpType = ''minor'' then versionString (int major) (int minor + 1) 0
           else versionString (int major) (int minor) (int patch + 1))"
  using assms(4) calculateNewVersion_versionString [of major minor patch bumpType c]
  by auto

theorem calculateNewVersion_three_cases_witness:
  "calculateNewVersion ''15.2.5'' ''minor'' \<lparr>maxMajor = 15, defaultMinor = 2\<rparr> = Some ''15.3.0''
   \<and> calculateNewVersion ''15.2.5'' ''patch'' \<lparr>maxMajor = 15, defaultMinor = 2\<rparr> = Some ''15.2.6''
   \<and> calculateNewVersion ''14.0.5'' ''minor'' \<lparr>maxMajor = 15, defaultMinor = 2\<rparr> = Some ''15.2.5''
   \<and> calculateNewVersion ''16.1.7'' ''patch'' \<lparr>maxMajor = 15, defaultMinor = 2\<rparr> = Some ''15.2.0''"
proof -
  have v: "versionString 15 2 5 = ''15.2.5''" "versionString 15 3 0 = ''15.3.0''"
    "versionString 15 2 6 = ''15.2.6''" "versionString 14 0 5 = ''14.0.5''"
    "versionString 16 1 7 = ''16.1.7''" "versionString 15 2 0 = ''15.2.0''"
    by code_simp+
  show ?thesis
    using calculateNewVersion_three_cases
            [of 15 2 5 "''minor''" "\<lparr>maxMajor = 15, defaultMinor = 2\<rparr>"]
          calculateNewVersion_three_cases
            [of 15 2 5 "''patch''" "\<lparr>maxMajor = 15, defaultMinor = 2\<rparr>"]
          calculateNewVersion_three_cases
            [of 14 0 5 "''minor''" "\<lparr>maxMajor = 15, defaultMinor = 2\<rparr>"]
          calculateNewVersion_three_cases
            [of 16 1 7 "''patch''" "\<lparr>maxMajor = 15, defaultMinor = 2\<rparr>"]
    by (simp add: isSafeInteger_def v)
qed

lemma safeBumpVersion_empty_collection:
  assumes "getCurrentBranch sh = Some branch" and "getCommitsSinceLastTag sh = []"
  shows "safeBumpVersion sh fs = Some (Returned fs)"
  using assms by (simp add: safeBumpVersion_def Let_def split: option.splits)

lemma safeBumpVersion_no_branch:
  "getCurrentBranch sh = None \<Longrightarrow> safeBumpVersion sh fs = Some (Exited 1 fs)"
  by (simp add: safeBumpVersion_def)

text \<open>The collection never throws: a failed log query gives the empty list.\<close>

lemma getCommitsSinceLastTag_failed_log:
  "sh (gitLogCommand (runCommand sh describeCommand)) = None \<Longrightarrow> getCommitsSinceLastTag sh = []"
  by (simp add: getCommitsSinceLastTag_def runCommand_def Let_def)

lemma getCommitsSinceLastTag_no_blank_line:
  "line \<in> set (getCommitsSinceLastTag sh) \<Longrightarrow> trim_js line \<noteq> []"
  by (auto simp: getCommitsSinceLastTag_def Let_def split: if_splits)

lemma analyzeCommits_two_hash_lines:
  "analyzeCommits [''a1b2c3d fix: a'', ''e4f5a6b feat: b''] = ''patch''"
  by code_simp

text \<open>
  C3. The scenario of the claim, run on a repository: branch main, manifest at 15.2.5, and
  since the last tag the two commits with the messages \<open>fix: a\<close> and \<open>feat: b\<close>. The
  log prints each with its hash first, the collected lines are
  \<open>a1b2c3d fix: a\<close> and \<open>e4f5a6b feat: b\<close>, and the run classifies them as a patch
  bump and writes 15.2.6 to both manifests, where the claim asks for a minor bump and
  15.3.0.
\<close>

theorem safeBumpVersion_hash_first:
  "getCommitsSinceLastTag
     (exampleShell ''main'' ''main-v15.2.5'' ''git log main-v15.2.5..HEAD --oneline''
        (onelineOf ''a1b2c3d'' ''fix: a'' @ [newline]
         @ onelineOf ''e4f5a6b'' ''feat: b'' @ [newline]))
     = [''a1b2c3d fix: a'', ''e4f5a6b feat: b'']
   \<and> analyzeCommits [''a1b2c3d fix: a'', ''e4f5a6b feat: b''] = ''patch''
   \<and> safeBumpVersion
       (exampleShell ''main'' ''main-v15.2.5'' ''git log main-v15.2.5..HEAD --oneline''
          (onelineOf ''a1b2c3d'' ''fix: a'' @ [newline]
           @ onelineOf ''e4f5a6b'' ''feat: b'' @ [newline]))
       (exampleFiles ''15.2.5'')
     = Some (Returned (exampleFiles ''15.2.6''))"
proof -
  let ?sh = "exampleShell ''main'' ''main-v15.2.5'' ''git log main-v15.2.5..HEAD --oneline''
               (onelineOf ''a1b2c3d'' ''fix: a'' @ [newline]
                @ onelineOf ''e4f5a6b'' ''feat: b'' @ [newline])"
  have b: "getCurrentBranch ?sh = Some ''main''" by code_simp
  have cs: "getCommitsSinceLastTag ?sh = [''a1b2c3d fix: a'', ''e4f5a6b feat: b'']"
    by code_simp
  have calc: "calculateNewVersion ''15.2.5'' ''patch'' \<lparr>maxMajor = 15, defaultMinor = 2\<rparr>
              = Some ''15.2.6''"
    by code_simp
  have nums: "those (map Number_js (split_js CHR ''.'' ''15.2.6''))
              = Some [Num 15, Num 2, Num 6]"
    by code_simp
  have run: "safeBumpVersion ?sh (exampleFiles ''15.2.5'')
             = Some (Returned (exampleFiles ''15.2.6''))"
    using b cs
    by (simp add: safeBumpVersion_def getVersionConstraints_def Let_def
        analyzeCommits_two_hash_lines calc nums greaterThan_js_def index_js_three
        exampleFiles_def updatePackageFiles_def
        del: split_js.simps)
  show ?thesis
    using cs run analyzeCommits_two_hash_lines by blast
qed

text \<open>
  C8. On a branch with a policy, when no commit is found since the last tag the bump
  returns normally (exit status 0) and leaves both manifests as they were, whatever the
  current version.
\<close>

theorem safeBumpVersion_no_commits:
  assumes "getCurrentBranch sh = Some branch"
    and "getVersionConstraints branch = Some c"
    and "getCommitsSinceLastTag sh = []"
  shows "safeBumpVersion sh fs = Some (Returned fs)
       \<and> map_option exitStatus (safeBumpVersion sh fs) = Some 0
       \<and> map_option filesAfter (safeBumpVersion sh fs) = Some fs"
  using safeBumpVersion_empty_collection [OF assms(1,3), of fs] by simp

theorem safeBumpVersion_no_commits_witness:
  "safeBumpVersion
     (exampleShell ''main'' ''main-v15.2.5'' ''git log main-v15.2.5..HEAD --oneline'' [])
     (exampleFiles ''15.2.5'')
   = Some (Returned (exampleFiles ''15.2.5''))"
proof -
  let ?sh = "exampleShell ''main'' ''main-v15.2.5'' ''git log main-v15.2.5..HEAD --oneline'' []"
  have b: "getCurrentBranch ?sh = Some ''main''" by code_simp
  have c: "getVersionConstraints ''main'' = Some \<lparr>maxMajor = 15, defaultMinor = 2\<rparr>"
    by (simp add: getVersionConstraints_def)
  have cs: "getCommitsSinceLastTag ?sh = []" by code_simp
  show ?thesis
    using safeBumpVersion_no_commits [OF b c cs, of "exampleFiles ''15.2.5''"] by simp
qed

text \<open>
  C4. The Bumper's collection asks for the log without \<open>--no-merges\<close>, so a merge
  commit made after the last tag is in its list; the Changelog Generator's collection, run
  on the same repository, leaves it out.
\<close>

theorem getCommitsSinceLastTag_lists_merge_commit:
  "getCommitsSinceLastTag mergeShell
     = [''c0ffee1 Merge pull request #12 from dev'', ''a1b2c3d fix: a'']
   \<and> fst (getCommitsSinceLastTag_changelog mergeShell) = [''a1b2c3d fix: a'']"
  by code_simp

subsection \<open>The Changelog Generator\<close>

lemma categorizeLoop_filter:
  "categorizeLoop cats commits =
     \<lparr>breaking = breaking cats @ filter (\<lambda>c. isBreaking (toLowerCase_js c)) commits,
      features = features cats
        @ filter (\<lambda>c. \<not> isBreaking (toLowerCase_js c) \<and> containsFeature (toLowerCase_js c))
            commits,
      fixes_cat = fixes_cat cats
        @ filter (\<lambda>c. \<not> isBreaking (toLowerCase_js c) \<and> \<not> containsFeature (toLowerCase_js c)
                     \<and> containsFix (toLowerCase_js c)) commits,
      other = other cats
        @ filter (\<lambda>c. \<not> isBreaking (toLowerCase_js c) \<and> \<not> containsFeature (toLowerCase_js c)
                     \<and> \<not> containsFix (toLowerCase_js c)) commits\<rparr>"
  by (induction commits arbitrary: cats) (simp_all add: categorizeStep_def Let_def)

lemma startsWith_includes: "startsWith_js s p \<Longrightarrow> includes_js s p"
proof -
  assume "startsWith_js s p"
  then obtain r where "s = [] @ p @ r" by (auto simp: startsWith_js_iff)
  then show "includes_js s p" unfolding includes_js_iff by blast
qed

text \<open>
  C5 as stated fails: a commit that only mentions \<open>feat:\<close> inside its text is no feature
  by the Bumper's rules, which ask for the prefix, and the rules with their priority put it
  in \<open>other\<close>; the Generator puts it in \<open>features\<close>.
\<close>

theorem categorizeCommits_differs_from_bumper_rules:
  "classify_spec ''a1b2c3d docs: explain the feat: prefix'' = Other
   \<and> features (categorizeCommits [''a1b2c3d docs: explain the feat: prefix''])
     = [''a1b2c3d docs: explain the feat: prefix'']
   \<and> categorizeCommits [''a1b2c3d docs: explain the feat: prefix'']
     \<noteq> categorize_spec [''a1b2c3d docs: explain the feat: prefix'']"
proof -
  have a: "classify_spec ''a1b2c3d docs: explain the feat: prefix'' = Other"
    by code_simp
  have b: "features (categorizeCommits [''a1b2c3d docs: explain the feat: prefix''])
           = [''a1b2c3d docs: explain the feat: prefix'']"
    by code_simp
  have c: "features (categorize_spec [''a1b2c3d docs: explain the feat: prefix'']) = []"
    by (simp add: categorize_spec_def a)
  show ?thesis
    using a b c by auto
qed

text \<open>
  C5, amended. The Generator keeps the priority breaking, then feature, then fix, then
  other, and its breaking test is the Bumper's. Its feature and fix tests look for
  \<open>feat:\<close>, \<open>feat(\<close>, \<open>fix:\<close>, \<open>fix(\<close> anywhere in the lower-cased line, not only
  at its start: a commit is in \<open>breaking\<close> exactly when the Bumper's rule marks it
  breaking, in \<open>features\<close> exactly when it is not breaking and contains a feature marker,
  in \<open>fixes\<close> exactly when it is neither and contains a fix marker, and in \<open>other\<close>
  otherwise. Every line the Bumper's prefix rules mark as a feature or a fix contains the
  marker, so a message with a \<open>feat:\<close> prefix and the text "breaking change" is in
  \<open>breaking\<close>, never in \<open>features\<close>.
\<close>

theorem categorizeCommits_buckets:
  "categorizeCommits commits =
     \<lparr>breaking = filter (\<lambda>c. isBreaking (toLowerCase_js c)) commits,
      features =
        filter (\<lambda>c. \<not> isBreaking (toLowerCase_js c) \<and> containsFeature (toLowerCase_js c))
          commits,
      fixes_cat =
        filter (\<lambda>c. \<not> isBreaking (toLowerCase_js c) \<and> \<not> containsFeature (toLowerCase_js c)
                   \<and> containsFix (toLowerCase_js c)) commits,
      other =
        filter (\<lambda>c. \<not> isBreaking (toLowerCase_js c) \<and> \<not> containsFeature (toLowerCase_js c)
                   \<and> \<not> containsFix (toLowerCase_js c)) commits\<rparr>
   \<and> (isFeature message \<longrightarrow> containsFeature message)
   \<and> (isFix message \<longrightarrow> containsFix message)"
  by (auto simp: categorizeCommits_def categorizeLoop_filter isFeature_def isFix_def
      containsFeature_def containsFix_def startsWith_includes)

theorem categorizeCommits_buckets_witness:
  "categorizeCommits [''feat: x, a breaking change'', ''feat(ui): y'', ''fix: z'', ''docs: w'']
     = \<lparr>breaking = [''feat: x, a breaking change''], features = [''feat(ui): y''],
        fixes_cat = [''fix: z''], other = [''docs: w'']\<rparr>
   \<and> containsFeature ''feat(ui): y''
   \<and> containsFix ''fix: z''"
proof -
  have t: "isBreaking (toLowerCase_js ''feat: x, a breaking change'')"
    "\<not> isBreaking (toLowerCase_js ''feat(ui): y'')"
    "\<not> isBreaking (toLowerCase_js ''fix: z'')"
    "\<not> isBreaking (toLowerCase_js ''docs: w'')"
    "containsFeature (toLowerCase_js ''feat(ui): y'')"
    "\<not> containsFeature (toLowerCase_js ''fix: z'')"
    "\<not> containsFeature (toLowerCase_js ''docs: w'')"
    "containsFix (toLowerCase_js ''fix: z'')"
    "\<not> containsFix (toLowerCase_js ''docs: w'')"
    by code_simp+
  have p: "isFeature ''feat(ui): y''" "isFix ''fix: z''"
    by code_simp+
  show ?thesis
    using categorizeCommits_buckets
            [of "[''feat: x, a breaking change'', ''feat(ui): y'', ''fix: z'', ''docs: w'']"
                "''feat(ui): y''"]
          categorizeCommits_buckets [of "[]" "''fix: z''"] t p
    by simp
qed


lemma documentLines_text:
  "changelog fs = Some text \<Longrightarrow> join_js [newline] (documentLines fs) = text"
  by (simp add: documentLines_def join_js_split_js)










text \<open>
  When the first line of the document is itself an entry line, the index found is 0, the
  right operand of \<open>||\<close> is taken, and the new entry goes after the third line, below
  the entry that was there.
\<close>

lemma updateChangelog_entry_on_first_line:
  "documentLines
     (updateChangelog (exampleEntry ''15.3.0'')
        (exampleFiles ''15.3.0''\<lparr>changelog := Some headlessChangelog\<rparr>))
   = [''## [15.2.0] - 2024-01-01'', [], ''- first release (abc1234)'', [],
      ''## [15.3.0] - 2024-01-15'', [], ''### Angular 15.x Compatibility'', [],
      ''- fix: a (a1b2c3d)'', [], []]"
  by code_simp




end
